theory Spec2Isabelle
  imports Main "HOL-Library.Sublist"
begin

section \<open>JavaScript values used by the application\<close>

text \<open>
  Strings are lists of code units; the model covers code units below 256 (Latin-1), which
  includes every character of the prompt templates and of a base64 data URL.

  A state slot that holds \<^verbatim>\<open>null\<close> or a string is a \<open>string option\<close>. JavaScript
  treats both \<^verbatim>\<open>null\<close> and the empty string as false in a condition.
\<close>

definition truthy :: "string option \<Rightarrow> bool" where
  "truthy v = (case v of None \<Rightarrow> False | Some s \<Rightarrow> s \<noteq> [])"

text \<open>
  \<^verbatim>\<open>String.prototype.trim\<close> removes white space and line terminators from both ends:
  TAB, LF, VT, FF, CR, SPACE and NBSP are the ones below 256.
\<close>

definition isWhiteSpace :: "char \<Rightarrow> bool" where
  "isWhiteSpace c = (c \<in> set [CHR 0x09, CHR 0x0A, CHR 0x0B, CHR 0x0C, CHR 0x0D, CHR 0x20, CHR 0xA0])"

definition trim :: "string \<Rightarrow> string" where
  "trim s = rev (dropWhile isWhiteSpace (rev (dropWhile isWhiteSpace s)))"

text \<open>
  The decimal digits a template literal prints for a non-negative integer. JavaScript prints
  a number this way when it is an integer below \<open>2 ^ 53\<close>.
\<close>

definition digit_char :: "nat \<Rightarrow> char" where
  "digit_char d = ''0123456789'' ! (d mod 10)"

fun string_of_nat :: "nat \<Rightarrow> string" where
  "string_of_nat n =
     (if n < 10 then [digit_char n] else string_of_nat (n div 10) @ [digit_char (n mod 10)])"

text \<open>A thrown value: an \<^verbatim>\<open>Error\<close> with its message, or anything else.\<close>

datatype thrown = Error string | NonError

section \<open>The generation service\<close>

subsection \<open>Request parts\<close>

record ImagePayload =
  base64 :: string
  mimeType :: string

datatype part = InlineData string string | TextPart string

definition base64ToGenerativePart :: "string \<Rightarrow> string \<Rightarrow> part" where
  "base64ToGenerativePart b m = InlineData b m"

fun isImagePart :: "part \<Rightarrow> bool" where
  "isImagePart (InlineData b m) = True"
| "isImagePart (TextPart t) = False"

subsection \<open>Aspect ratio\<close>

definition getAspectRatioDescription :: "string \<Rightarrow> nat \<Rightarrow> nat \<Rightarrow> string" where
  "getAspectRatioDescription ratio width height =
     (if ratio = ''custom'' \<and> width > 0 \<and> height > 0
      then ''a ('' @ string_of_nat width @ '':'' @ string_of_nat height @ '')''
      else if ratio = ''1:1'' then ''a square (1:1)''
      else if ratio = ''3:4'' then ''a portrait (3:4)''
      else if ratio = ''4:3'' then ''a landscape (4:3)''
      else ''a ('' @ ratio @ '')'')"

subsection \<open>Prompt templates\<close>

text \<open>
  Each template is cut at its interpolations: the text before the aspect ratio, the text
  between the aspect ratio and the user's request, and the closing OUTPUT clause.
\<close>

definition outfit_head :: string where
  \<open>outfit_head =
     ''You are a professional digital artist. Your task is to dress a character in a specific outfit and have them interact with a product.\<newline>'' @
     ''\<newline>'' @
     ''INSTRUCTIONS:\<newline>'' @
     ''1.  Analyze the first image, which contains the CHARACTER. Pay attention to their posture, lighting, and environment.\<newline>'' @
     ''2.  Analyze the second image, which contains the PRODUCT. Note its shape, size, and branding.\<newline>'' @
     ''3.  Analyze the third image, which contains the OUTFIT.\<newline>'' @
     ''4.  Create a NEW, high-quality, photorealistic image where the CHARACTER from the first image is wearing the OUTFIT from the third image, and is naturally interacting with, holding, or using the PRODUCT from the second image.\<newline>'' @
     ''5.  The final image should look like a single, cohesive photograph. The lighting on the product and outfit must match the lighting on the character and the scene.\<newline>'' @
     ''6.  Maintain the character's appearance and identity (face, etc.), but change their clothing to match the provided OUTFIT.\<newline>'' @
     ''7.  Maintain the product's appearance and branding.\<newline>'' @
     ''8.  The final image MUST have ''\<close>

definition outfit_mid :: string where
  \<open>outfit_mid =
     '' aspect ratio.\<newline>'' @
     ''9.  The background can be inspired by the character's image or a simple, neutral studio background if the original is too complex.\<newline>''\<close>

definition plain_head :: string where
  \<open>plain_head =
     ''You are a professional digital artist specializing in photorealistic product placement. Your task is to seamlessly integrate a product into a scene with a character.\<newline>'' @
     ''\<newline>'' @
     ''INSTRUCTIONS:\<newline>'' @
     ''1.  Analyze the first image, which contains the CHARACTER. Pay attention to their posture, lighting, and environment.\<newline>'' @
     ''2.  Analyze the second image, which contains the PRODUCT. Note its shape, size, and branding.\<newline>'' @
     ''3.  Create a NEW, high-quality, photorealistic image where the CHARACTER from the first image is naturally interacting with, holding, or using the PRODUCT from the second image.\<newline>'' @
     ''4.  The final image should look like a single, cohesive photograph. The lighting on the product must match the lighting on the character.\<newline>'' @
     ''5.  Maintain the character's appearance and identity. Do not change their face or clothing unless necessary for the interaction.\<newline>'' @
     ''6.  Maintain the product's appearance and branding.\<newline>'' @
     ''7.  The final image MUST have ''\<close>

definition plain_mid :: string where
  \<open>plain_mid =
     '' aspect ratio.\<newline>'' @
     ''8.  The background can be inspired by the character's image or a simple, neutral studio background if the original is too complex.\<newline>''\<close>

definition background_head :: string where
  \<open>background_head =
     ''You are a professional product photographer and digital artist. Your task is to place the product from the first image into the background provided in the second image.\<newline>'' @
     ''    \<newline>'' @
     ''INSTRUCTIONS:\<newline>'' @
     ''1.  Analyze the first image to understand the PRODUCT.\<newline>'' @
     ''2.  Analyze the second image which is the BACKGROUND scene.\<newline>'' @
     ''3.  Create a NEW, high-quality, photorealistic image that seamlessly places the PRODUCT into the BACKGROUND.\<newline>'' @
     ''4.  The lighting, shadows, and reflections on the product MUST match the new environment perfectly.\<newline>'' @
     ''5.  The final image should be a convincing and aesthetically pleasing product photograph.\<newline>'' @
     ''6.  Do not change the product itself or the background. Only integrate the product into the background.\<newline>'' @
     ''7.  The final image MUST have ''\<close>

definition background_mid :: string where
  \<open>background_mid = '' aspect ratio.\<newline>''\<close>

definition scene_head :: string where
  \<open>scene_head =
     ''You are a professional product photographer and digital artist. Your task is to place the product from the provided image into a new, beautifully composed scene.\<newline>'' @
     ''    \<newline>'' @
     ''INSTRUCTIONS:\<newline>'' @
     ''1.  Analyze the provided image to understand the PRODUCT.\<newline>'' @
     ''2.  Read the user's description of the desired scene.\<newline>'' @
     ''3.  Create a NEW, high-quality, photorealistic image that places the product into the scene described by the user.\<newline>'' @
     ''4.  The lighting, shadows, and reflections on the product MUST match the new environment perfectly.\<newline>'' @
     ''5.  The final image should be a convincing and aesthetically pleasing product photograph.\<newline>'' @
     ''6.  Do not change the product itself.\<newline>'' @
     ''7.  The final image MUST have ''\<close>

definition scene_mid :: string where
  \<open>scene_mid =
     '' aspect ratio.\<newline>'' @
     ''\<newline>'' @
     ''USER SCENE DESCRIPTION: "''\<close>

definition quote_mark :: string where
  \<open>quote_mark = ''"''\<close>

definition output_clause :: string where
  \<open>output_clause =
     ''\<newline>'' @
     ''\<newline>'' @
     ''OUTPUT:\<newline>'' @
     ''- You MUST return only the final image.\<newline>'' @
     ''- DO NOT return any text, JSON, or other data.''\<close>

text \<open>
  The interpolation
  \<^verbatim>\<open>${userPrompt ? `\nADDITIONAL USER REQUEST: "${userPrompt}"` : ''}\<close>.
\<close>

definition additional_request_open :: string where
  \<open>additional_request_open = ''\<newline>ADDITIONAL USER REQUEST: "''\<close>

definition additionalRequest :: "string \<Rightarrow> string" where
  "additionalRequest userPrompt =
     (if userPrompt \<noteq> [] then additional_request_open @ userPrompt @ quote_mark else [])"

definition characterPrompt_text :: "bool \<Rightarrow> string \<Rightarrow> string \<Rightarrow> nat \<Rightarrow> nat \<Rightarrow> string" where
  "characterPrompt_text withOutfit userPrompt aspectRatio customWidth customHeight =
     (if withOutfit
      then outfit_head @ getAspectRatioDescription aspectRatio customWidth customHeight @
           outfit_mid @ additionalRequest userPrompt @ output_clause
      else plain_head @ getAspectRatioDescription aspectRatio customWidth customHeight @
           plain_mid @ additionalRequest userPrompt @ output_clause)"

definition productPrompt_text :: "bool \<Rightarrow> string \<Rightarrow> string \<Rightarrow> nat \<Rightarrow> nat \<Rightarrow> string" where
  "productPrompt_text withBackground userPrompt aspectRatio customWidth customHeight =
     (if withBackground
      then background_head @ getAspectRatioDescription aspectRatio customWidth customHeight @
           background_mid @ additionalRequest userPrompt @ output_clause
      else scene_head @ getAspectRatioDescription aspectRatio customWidth customHeight @
           scene_mid @ userPrompt @ quote_mark @ output_clause)"

text \<open>
  The parts list each generator hands to \<^verbatim>\<open>executeImageGeneration\<close>: the image parts
  in the order they are pushed, then the instruction text.
\<close>

definition characterPlacementParts ::
  "ImagePayload \<Rightarrow> ImagePayload \<Rightarrow> ImagePayload option \<Rightarrow> string \<Rightarrow> string \<Rightarrow> nat \<Rightarrow> nat \<Rightarrow> part list" where
  "characterPlacementParts characterImage productImage outfitImage userPrompt aspectRatio customWidth customHeight =
     (let characterPart = base64ToGenerativePart (base64 characterImage) (mimeType characterImage);
          productPart = base64ToGenerativePart (base64 productImage) (mimeType productImage);
          parts = [characterPart, productPart]
      in case outfitImage of
           Some outfit \<Rightarrow>
             (parts @ [base64ToGenerativePart (base64 outfit) (mimeType outfit)]) @
             [TextPart (characterPrompt_text True userPrompt aspectRatio customWidth customHeight)]
         | None \<Rightarrow>
             parts @
             [TextPart (characterPrompt_text False userPrompt aspectRatio customWidth customHeight)])"

definition productConceptParts ::
  "ImagePayload \<Rightarrow> ImagePayload option \<Rightarrow> string \<Rightarrow> string \<Rightarrow> nat \<Rightarrow> nat \<Rightarrow> part list" where
  "productConceptParts productImage backgroundImage userPrompt aspectRatio customWidth customHeight =
     (let productPart = base64ToGenerativePart (base64 productImage) (mimeType productImage);
          parts = [productPart]
      in case backgroundImage of
           Some background \<Rightarrow>
             (parts @ [base64ToGenerativePart (base64 background) (mimeType background)]) @
             [TextPart (productPrompt_text True userPrompt aspectRatio customWidth customHeight)]
         | None \<Rightarrow>
             parts @
             [TextPart (productPrompt_text False userPrompt aspectRatio customWidth customHeight)])"

subsection \<open>The model's response\<close>

text \<open>
  What the code reads of a response: \<^verbatim>\<open>response.candidates?.[0]?.content?.parts\<close>, and in
  each part the optional \<^verbatim>\<open>inlineData\<close> (with optional \<^verbatim>\<open>data\<close> and
  \<^verbatim>\<open>mimeType\<close>) and the optional \<^verbatim>\<open>text\<close>. A field that is absent is \<open>None\<close>.
\<close>

record Blob =
  blob_data :: "string option"
  blob_mimeType :: "string option"

record ResponsePart =
  part_inlineData :: "Blob option"
  part_text :: "string option"

datatype Content = Content (content_parts: "ResponsePart list option")

datatype Candidate = Candidate (candidate_content: "Content option")

datatype Response = Response (candidates: "Candidate list option")

definition responseParts :: "Response \<Rightarrow> ResponsePart list option" where
  "responseParts response =
     (case candidates response of
        None \<Rightarrow> None
      | Some [] \<Rightarrow> None
      | Some (c # cs) \<Rightarrow>
          (case candidate_content c of None \<Rightarrow> None | Some ct \<Rightarrow> content_parts ct))"

record GeneratedImage =
  imageData_data :: string
  imageData_mimeType :: "string option"

text \<open>\<^verbatim>\<open>responseParts.find(p => p.inlineData)\<close>: an object is true, whatever it holds.\<close>

definition findInlineData :: "ResponsePart list \<Rightarrow> ResponsePart option" where
  "findInlineData ps = find (\<lambda>p. part_inlineData p \<noteq> None) ps"

text \<open>\<^verbatim>\<open>responseParts.find(p => p.text)?.text\<close>: the first text that is not empty.\<close>

definition findText :: "ResponsePart list \<Rightarrow> string option" where
  "findText ps = (case find (\<lambda>p. truthy (part_text p)) ps of None \<Rightarrow> None | Some p \<Rightarrow> part_text p)"

text \<open>\<^verbatim>\<open>imagePart?.inlineData?.data\<close>\<close>

definition inlineDataOf :: "ResponsePart option \<Rightarrow> string option" where
  "inlineDataOf imagePart =
     (case imagePart of
        None \<Rightarrow> None
      | Some p \<Rightarrow> (case part_inlineData p of None \<Rightarrow> None | Some b \<Rightarrow> blob_data b))"

definition mimeTypeOf :: "ResponsePart option \<Rightarrow> string option" where
  "mimeTypeOf imagePart =
     (case imagePart of
        None \<Rightarrow> None
      | Some p \<Rightarrow> (case part_inlineData p of None \<Rightarrow> None | Some b \<Rightarrow> blob_mimeType b))"

text \<open>
  \<^verbatim>\<open>executeImageGeneration\<close> after the request has settled: the \<^verbatim>\<open>await\<close> rethrows a
  rejection, otherwise the response is inspected.
\<close>

definition executeImageGeneration :: "thrown + Response \<Rightarrow> thrown + GeneratedImage" where
  "executeImageGeneration settled =
     (case settled of
        Inl e \<Rightarrow> Inl e
      | Inr response \<Rightarrow>
          (case responseParts response of
             None \<Rightarrow> Inl (Error ''Invalid response from model. No parts found.'')
           | Some ps \<Rightarrow>
               (let imagePart = findInlineData ps in
                if \<not> truthy (inlineDataOf imagePart)
                then Inl (Error (''Model did not return an image. Response: '' @
                       (case findText ps of None \<Rightarrow> ''<no text>'' | Some t \<Rightarrow> t)))
                else Inr \<lparr>imageData_data = the (inlineDataOf imagePart),
                          imageData_mimeType = mimeTypeOf imagePart\<rparr>)))"

text \<open>The \<^verbatim>\<open>catch\<close> of each generator: \<^verbatim>\<open>error instanceof Error ? error.message : ''\<close>.\<close>

definition errorMessageOrEmpty :: "thrown \<Rightarrow> string" where
  "errorMessageOrEmpty e = (case e of Error m \<Rightarrow> m | NonError \<Rightarrow> [])"

definition generateCharacterPlacementImage :: "thrown + Response \<Rightarrow> thrown + GeneratedImage" where
  "generateCharacterPlacementImage settled =
     (case executeImageGeneration settled of
        Inl e \<Rightarrow> Inl (Error (''Failed to generate image. '' @ errorMessageOrEmpty e))
      | Inr g \<Rightarrow> Inr g)"

definition generateProductConceptImage :: "thrown + Response \<Rightarrow> thrown + GeneratedImage" where
  "generateProductConceptImage settled =
     (case executeImageGeneration settled of
        Inl e \<Rightarrow> Inl (Error (''Failed to generate product concept. '' @ errorMessageOrEmpty e))
      | Inr g \<Rightarrow> Inr g)"

section \<open>The application\<close>

subsection \<open>State\<close>

text \<open>
  The four values of \<^verbatim>\<open>AppState\<close>; \<^verbatim>\<open>AppState.Error\<close> is \<open>ErrorState\<close> here, since
  \<open>Error\<close> names the thrown value. No handler sets it: an error is shown in \<open>Idle\<close>.
\<close>

datatype AppState = Idle | Loading | Result | ErrorState

datatype Mode = Character | Product

record HistoryItem =
  item_id :: nat
  item_images :: "string list"
  item_prompt :: string
  item_mode :: Mode
  item_characterImage :: "string option"
  item_productImage :: "string option"
  item_outfitImage :: "string option"
  item_backgroundImage :: "string option"

record ZoomState =
  isOpen :: bool
  zoom_images :: "string list"
  startIndex :: nat

record App =
  appState :: AppState
  mode :: Mode
  characterImage :: "string option"
  productImage :: "string option"
  outfitImage :: "string option"
  backgroundImage :: "string option"
  characterPrompt :: string
  productPrompt :: string
  numberOfImages :: nat
  aspectRatio :: string
  customWidth :: nat
  customHeight :: nat
  resultImages :: "string list"
  error :: "string option"
  history :: "HistoryItem list"
  zoomedImageState :: ZoomState

definition initialApp :: App where
  "initialApp =
     \<lparr>appState = Idle, mode = Character,
      characterImage = None, productImage = None, outfitImage = None, backgroundImage = None,
      characterPrompt = [], productPrompt = [],
      numberOfImages = 1, aspectRatio = ''1:1'', customWidth = 1024, customHeight = 1024,
      resultImages = [], error = None, history = [],
      zoomedImageState = \<lparr>isOpen = False, zoom_images = [], startIndex = 0\<rparr>\<rparr>"

subsection \<open>Image slots\<close>

datatype Slot = CharacterSlot | ProductSlot | OutfitSlot | BackgroundSlot

definition setSlot :: "Slot \<Rightarrow> string option \<Rightarrow> App \<Rightarrow> App" where
  "setSlot slot v s =
     (case slot of
        CharacterSlot \<Rightarrow> s\<lparr>characterImage := v\<rparr>
      | ProductSlot \<Rightarrow> s\<lparr>productImage := v\<rparr>
      | OutfitSlot \<Rightarrow> s\<lparr>outfitImage := v\<rparr>
      | BackgroundSlot \<Rightarrow> s\<lparr>backgroundImage := v\<rparr>)"

definition getSlot :: "Slot \<Rightarrow> App \<Rightarrow> string option" where
  "getSlot slot s =
     (case slot of
        CharacterSlot \<Rightarrow> characterImage s
      | ProductSlot \<Rightarrow> productImage s
      | OutfitSlot \<Rightarrow> outfitImage s
      | BackgroundSlot \<Rightarrow> backgroundImage s)"

definition handleImageUpload :: "Slot \<Rightarrow> string \<Rightarrow> App \<Rightarrow> App" where
  "handleImageUpload slot dataUrl s = setSlot slot (Some dataUrl) s"

definition handleImageClear :: "Slot \<Rightarrow> App \<Rightarrow> App" where
  "handleImageClear slot s = setSlot slot None s"

subsection \<open>Generating\<close>

text \<open>
  \<^verbatim>\<open>/^data:(image\/(?:jpeg|png|webp));base64,(.*)$/\<close>: one of the three types, then any
  characters up to the end of the string, none of them a line terminator.
\<close>

definition isLineTerminator :: "char \<Rightarrow> bool" where
  "isLineTerminator c = (c = CHR 0x0A \<or> c = CHR 0x0D)"

definition dataUrlHeader :: "string \<Rightarrow> string" where
  "dataUrlHeader m = ''data:'' @ m @ '';base64,''"

definition parseDataUrl :: "string \<Rightarrow> thrown + ImagePayload" where
  "parseDataUrl dataUrl =
     (case find (\<lambda>m. prefix (dataUrlHeader m) dataUrl) [''image/jpeg'', ''image/png'', ''image/webp''] of
        None \<Rightarrow> Inl (Error ''Invalid image data URL.'')
      | Some m \<Rightarrow>
          (let rest = drop (length (dataUrlHeader m)) dataUrl in
           if list_ex isLineTerminator rest
           then Inl (Error ''Invalid image data URL.'')
           else Inr \<lparr>base64 = rest, mimeType = m\<rparr>))"

text \<open>
  A slot read by \<^verbatim>\<open>parseDataUrl\<close>. The validation keeps \<^verbatim>\<open>null\<close> away from it;
  \<^verbatim>\<open>null.match\<close> would throw a TypeError, which is an Error.
\<close>

definition parseSlot :: "string option \<Rightarrow> thrown + ImagePayload" where
  "parseSlot v =
     (case v of
        None \<Rightarrow> Inl (Error ''Cannot read properties of null (reading 'match')'')
      | Some dataUrl \<Rightarrow> parseDataUrl dataUrl)"

text \<open>\<^verbatim>\<open>outfitImage ? parseDataUrl(outfitImage) : null\<close>\<close>

definition parseOptionalSlot :: "string option \<Rightarrow> thrown + ImagePayload option" where
  "parseOptionalSlot v =
     (if truthy v
      then (case parseSlot v of Inl e \<Rightarrow> Inl e | Inr p \<Rightarrow> Inr (Some p))
      else Inr None)"

definition currentPrompt :: "App \<Rightarrow> string" where
  "currentPrompt s = (if mode s = Character then characterPrompt s else productPrompt s)"

definition validationError :: "App \<Rightarrow> string option" where
  "validationError s =
     (if mode s = Character \<and> (\<not> truthy (characterImage s) \<or> \<not> truthy (productImage s))
      then Some ''Please upload both a character and a product image.''
      else if mode s = Product \<and> \<not> truthy (productImage s)
      then Some ''Please upload a product image.''
      else if mode s = Product \<and> trim (currentPrompt s) = [] \<and> \<not> truthy (backgroundImage s)
      then Some ''Please describe the scene or provide a background image for the product concept.''
      else None)"

text \<open>One turn of the \<^verbatim>\<open>for\<close> loop up to the call of the generator: the request it sends.\<close>

definition buildRequest :: "App \<Rightarrow> thrown + part list" where
  "buildRequest s =
     (if mode s = Character
      then (case parseSlot (characterImage s) of
              Inl e \<Rightarrow> Inl e
            | Inr charImgParts \<Rightarrow>
                (case parseSlot (productImage s) of
                   Inl e \<Rightarrow> Inl e
                 | Inr prodImgParts \<Rightarrow>
                     (case parseOptionalSlot (outfitImage s) of
                        Inl e \<Rightarrow> Inl e
                      | Inr outfitImgParts \<Rightarrow>
                          Inr (characterPlacementParts charImgParts prodImgParts outfitImgParts
                                 (currentPrompt s) (aspectRatio s) (customWidth s) (customHeight s)))))
      else (case parseSlot (productImage s) of
              Inl e \<Rightarrow> Inl e
            | Inr prodImgParts \<Rightarrow>
                (case parseOptionalSlot (backgroundImage s) of
                   Inl e \<Rightarrow> Inl e
                 | Inr backgroundImgParts \<Rightarrow>
                     Inr (productConceptParts prodImgParts backgroundImgParts
                            (currentPrompt s) (aspectRatio s) (customWidth s) (customHeight s)))))"

text \<open>
  The loop \<^verbatim>\<open>for (let i = 0; i < numberOfImages; i++)\<close>, counted down: each turn sends a
  request, or throws and leaves the loop with the requests sent so far.
\<close>

fun generationLoop :: "App \<Rightarrow> nat \<Rightarrow> part list list \<Rightarrow> part list list \<times> thrown option" where
  "generationLoop s 0 sent = (sent, None)"
| "generationLoop s (Suc k) sent =
     (case buildRequest s of
        Inl e \<Rightarrow> (sent, Some e)
      | Inr parts \<Rightarrow> generationLoop s k (sent @ [parts]))"

text \<open>
  The generation service, outside the program: for the i-th request of a batch and its
  parts, when the request settles and how (rejected with a thrown value, or a response).
\<close>

record Reply =
  settledAt :: nat
  settled :: "thrown + Response"

type_synonym Api = "nat \<Rightarrow> part list \<Rightarrow> Reply"

definition runTask :: "Mode \<Rightarrow> Api \<Rightarrow> nat \<times> part list \<Rightarrow> nat \<times> (thrown + GeneratedImage)" where
  "runTask m api task =
     (let reply = api (fst task) (snd task)
      in (settledAt reply,
          if m = Character then generateCharacterPlacementImage (settled reply)
          else generateProductConceptImage (settled reply)))"

text \<open>
  \<^verbatim>\<open>Promise.all\<close>: the values in the order of the promises when all are fulfilled,
  otherwise the reason of the promise that rejects first (the earlier promise on a tie).
\<close>

fun firstRejection :: "(nat \<times> (thrown + 'a)) list \<Rightarrow> (nat \<times> thrown) option" where
  "firstRejection [] = None"
| "firstRejection ((t, Inr v) # rest) = firstRejection rest"
| "firstRejection ((t, Inl e) # rest) =
     (case firstRejection rest of
        None \<Rightarrow> Some (t, e)
      | Some later \<Rightarrow> if fst later < t then Some later else Some (t, e))"

fun fulfilled :: "(nat \<times> (thrown + 'a)) list \<Rightarrow> 'a list" where
  "fulfilled [] = []"
| "fulfilled ((t, Inr v) # rest) = v # fulfilled rest"
| "fulfilled ((t, Inl e) # rest) = fulfilled rest"

definition Promise_all :: "(nat \<times> (thrown + 'a)) list \<Rightarrow> thrown + 'a list" where
  "Promise_all promises =
     (case firstRejection promises of
        Some r \<Rightarrow> Inl (snd r)
      | None \<Rightarrow> Inr (fulfilled promises))"

text \<open>
  \<^verbatim>\<open>`data:${result.imageData.mimeType};base64,${result.imageData.data}`\<close>; a missing
  \<^verbatim>\<open>mimeType\<close> prints as \<open>undefined\<close>.
\<close>

definition toDataUrl :: "GeneratedImage \<Rightarrow> string" where
  "toDataUrl result =
     ''data:'' @ (case imageData_mimeType result of None \<Rightarrow> ''undefined'' | Some m \<Rightarrow> m) @
     '';base64,'' @ imageData_data result"

fun toDataUrls :: "GeneratedImage list \<Rightarrow> thrown + string list" where
  "toDataUrls [] = Inr []"
| "toDataUrls (result # rest) =
     (if imageData_data result = []
      then Inl (Error ''One or more image generations failed. The model did not return a valid image.'')
      else (case toDataUrls rest of Inl e \<Rightarrow> Inl e | Inr urls \<Rightarrow> Inr (toDataUrl result # urls)))"

text \<open>The \<^verbatim>\<open>catch\<close> of \<^verbatim>\<open>handleGenerate\<close>.\<close>

definition failWith :: "thrown \<Rightarrow> App \<Rightarrow> App" where
  "failWith err s =
     s\<lparr>error := Some (case err of Error m \<Rightarrow> m | NonError \<Rightarrow> ''An unknown error occurred.''),
       appState := Idle\<rparr>"

definition newHistoryItem :: "App \<Rightarrow> nat \<Rightarrow> string list \<Rightarrow> HistoryItem" where
  "newHistoryItem s now generatedImages =
     \<lparr>item_id = now, item_images = generatedImages, item_prompt = currentPrompt s,
      item_mode = mode s, item_characterImage = characterImage s,
      item_productImage = productImage s, item_outfitImage = outfitImage s,
      item_backgroundImage = backgroundImage s\<rparr>"

text \<open>
  What one call of \<^verbatim>\<open>handleGenerate\<close> does: the state it leaves, the requests it sent,
  in order, and the values it gave to \<^verbatim>\<open>setAppState\<close>, in order. While the batch is
  pending the interface shows only the loading overlay, so the call is one step.
  \<open>now\<close> is \<^verbatim>\<open>Date.now()\<close>.
\<close>

record Generation =
  final :: App
  dispatched :: "part list list"
  transitions :: "AppState list"

definition handleGenerate :: "Api \<Rightarrow> nat \<Rightarrow> App \<Rightarrow> Generation" where
  "handleGenerate api now s =
     (case validationError s of
        Some msg \<Rightarrow> \<lparr>final = s\<lparr>error := Some msg\<rparr>, dispatched = [], transitions = []\<rparr>
      | None \<Rightarrow>
          (let loading = s\<lparr>error := None, appState := Loading\<rparr>;
               loop = generationLoop s (numberOfImages s) []
           in case snd loop of
                Some e \<Rightarrow>
                  \<lparr>final = failWith e loading, dispatched = fst loop, transitions = [Loading, Idle]\<rparr>
              | None \<Rightarrow>
                  (case Promise_all (map (runTask (mode s) api) (enumerate 0 (fst loop))) of
                     Inl e \<Rightarrow>
                       \<lparr>final = failWith e loading, dispatched = fst loop,
                        transitions = [Loading, Idle]\<rparr>
                   | Inr results \<Rightarrow>
                       (case toDataUrls results of
                          Inl e \<Rightarrow>
                            \<lparr>final = failWith e loading, dispatched = fst loop,
                             transitions = [Loading, Idle]\<rparr>
                        | Inr generatedImages \<Rightarrow>
                            \<lparr>final = loading
                               \<lparr>history := take 10 (newHistoryItem s now generatedImages # history s),
                                resultImages := generatedImages,
                                appState := Result\<rparr>,
                             dispatched = fst loop,
                             transitions = [Loading, Result]\<rparr>))))"

subsection \<open>The other handlers\<close>

definition handleStartOver :: "App \<Rightarrow> App" where
  "handleStartOver s =
     s\<lparr>appState := Idle,
       characterImage := None, productImage := None, outfitImage := None, backgroundImage := None,
       characterPrompt := [], productPrompt := [],
       numberOfImages := 1, aspectRatio := ''1:1'',
       resultImages := [], error := None\<rparr>"

definition handleContinue :: "App \<Rightarrow> App" where
  "handleContinue s = s\<lparr>appState := Idle, numberOfImages := 1, resultImages := [], error := None\<rparr>"

definition handleOpenZoomModal :: "string list \<Rightarrow> nat \<Rightarrow> App \<Rightarrow> App" where
  "handleOpenZoomModal images i s =
     s\<lparr>zoomedImageState := \<lparr>isOpen = True, zoom_images = images, startIndex = i\<rparr>\<rparr>"

definition handleCloseZoomModal :: "App \<Rightarrow> App" where
  "handleCloseZoomModal s =
     s\<lparr>zoomedImageState := \<lparr>isOpen = False, zoom_images = [], startIndex = 0\<rparr>\<rparr>"

definition handleReuseHistoryItem :: "HistoryItem \<Rightarrow> App \<Rightarrow> App" where
  "handleReuseHistoryItem item s =
     (let s' = s\<lparr>mode := item_mode item,
                  characterImage := item_characterImage item,
                  productImage := item_productImage item,
                  outfitImage := item_outfitImage item,
                  backgroundImage := item_backgroundImage item\<rparr>
      in if item_mode item = Character
         then s'\<lparr>characterPrompt := item_prompt item, productPrompt := []\<rparr>
         else s'\<lparr>productPrompt := item_prompt item, characterPrompt := []\<rparr>)"

text \<open>
  The size fields: \<^verbatim>\<open>Math.max(0, parseInt(e.target.value, 10) || 0)\<close>, where
  \<^verbatim>\<open>parseInt\<close> gives an integer or \<^verbatim>\<open>NaN\<close> (\<open>None\<close>).
\<close>

definition parsedSize :: "int option \<Rightarrow> nat" where
  "parsedSize v = nat (max 0 (case v of None \<Rightarrow> 0 | Some i \<Rightarrow> i))"

text \<open>What \<^verbatim>\<open>renderContent\<close> shows of the result images.\<close>

definition displayedResults :: "App \<Rightarrow> string list" where
  "displayedResults s = (if appState s = Result then resultImages s else [])"

subsection \<open>Image intake\<close>

text \<open>
  A file the user picks: its MIME type and its bytes. The file input has
  \<^verbatim>\<open>accept="image/*"\<close>, which offers the files of every image type.
\<close>

record File =
  file_type :: string
  file_bytes :: "nat list"

definition pickerAccepts :: "File \<Rightarrow> bool" where
  "pickerAccepts f = (prefix ''image/'' (file_type f) \<and> file_type f \<noteq> ''image/'')"

text \<open>
  \<^verbatim>\<open>FileReader.readAsDataURL\<close>, outside the program: the result is \<open>data:\<close>, the type
  of the file, \<open>;base64,\<close> and the bytes in base64 (RFC 4648, padded, no line breaks). For
  a file without a type the reader writes \<open>application/octet-stream\<close>.
\<close>

definition base64_char :: "nat \<Rightarrow> char" where
  "base64_char n =
     ''ABCDEFGHIJKLMNOPQRSTUVWXYZabcdefghijklmnopqrstuvwxyz0123456789+/'' ! (n mod 64)"

fun base64_encode :: "nat list \<Rightarrow> string" where
  "base64_encode [] = []"
| "base64_encode [a] =
     [base64_char (a div 4), base64_char ((a mod 4) * 16), CHR ''='', CHR ''='']"
| "base64_encode [a, b] =
     [base64_char (a div 4), base64_char ((a mod 4) * 16 + b div 16),
      base64_char ((b mod 16) * 4), CHR ''='']"
| "base64_encode (a # b # c # rest) =
     [base64_char (a div 4), base64_char ((a mod 4) * 16 + b div 16),
      base64_char ((b mod 16) * 4 + c div 64), base64_char (c mod 64)] @ base64_encode rest"

definition dataUrlType :: "File \<Rightarrow> string" where
  "dataUrlType f = (if file_type f = [] then ''application/octet-stream'' else file_type f)"

definition readAsDataURL :: "File \<Rightarrow> string" where
  "readAsDataURL f = ''data:'' @ dataUrlType f @ '';base64,'' @ base64_encode (file_bytes f)"

text \<open>
  \<^verbatim>\<open>handleFileChange\<close> of the uploader of a slot: \<open>file\<close> is
  \<^verbatim>\<open>event.target.files?.[0]\<close>, \<open>readOk\<close> tells whether the reader ends with a result;
  \<^verbatim>\<open>onImageUpload\<close> is \<^verbatim>\<open>handleImageUpload\<close> of that slot.
\<close>

definition handleFileChange :: "Slot \<Rightarrow> File option \<Rightarrow> bool \<Rightarrow> App \<Rightarrow> App" where
  "handleFileChange slot file readOk s =
     (case file of
        None \<Rightarrow> s
      | Some f \<Rightarrow>
          (let result = (if readOk then Some (readAsDataURL f) else None)
           in if truthy result then handleImageUpload slot (the result) s else s))"

subsection \<open>Sessions\<close>

text \<open>
  The events of the interface, each with the handler or setter it calls. The number of
  images is chosen among the buttons 1 to 6, and a history entry is reused by its position
  in the list shown.
\<close>

datatype event =
    FileChange Slot "File option" bool
  | ImageClear Slot
  | SetMode Mode
  | SetCharacterPrompt string
  | SetProductPrompt string
  | SetNumberOfImages nat
  | SetAspectRatio string
  | SetCustomWidth "int option"
  | SetCustomHeight "int option"
  | DismissError
  | Generate Api nat
  | StartOver
  | Continue
  | ReuseHistoryItem nat
  | OpenZoomModal "string list" nat
  | CloseZoomModal

fun step :: "App \<Rightarrow> event \<Rightarrow> App" where
  "step s (FileChange slot file readOk) = handleFileChange slot file readOk s"
| "step s (ImageClear slot) = handleImageClear slot s"
| "step s (SetMode m) = s\<lparr>mode := m\<rparr>"
| "step s (SetCharacterPrompt p) = s\<lparr>characterPrompt := p\<rparr>"
| "step s (SetProductPrompt p) = s\<lparr>productPrompt := p\<rparr>"
| "step s (SetNumberOfImages num) = (if num \<in> set [1, 2, 3, 4, 5, 6] then s\<lparr>numberOfImages := num\<rparr> else s)"
| "step s (SetAspectRatio r) = s\<lparr>aspectRatio := r\<rparr>"
| "step s (SetCustomWidth v) = s\<lparr>customWidth := parsedSize v\<rparr>"
| "step s (SetCustomHeight v) = s\<lparr>customHeight := parsedSize v\<rparr>"
| "step s DismissError = s\<lparr>error := None\<rparr>"
| "step s (Generate api now) = final (handleGenerate api now s)"
| "step s StartOver = handleStartOver s"
| "step s Continue = handleContinue s"
| "step s (ReuseHistoryItem i) =
     (if i < length (history s) then handleReuseHistoryItem (history s ! i) s else s)"
| "step s (OpenZoomModal images i) = handleOpenZoomModal images i s"
| "step s CloseZoomModal = handleCloseZoomModal s"

fun run :: "App \<Rightarrow> event list \<Rightarrow> App" where
  "run s [] = s"
| "run s (e # es) = run (step s e) es"

text \<open>
  The history entries a session creates, oldest first: one for each generation that ends
  in \<open>Result\<close>.
\<close>

definition succeeded :: "Generation \<Rightarrow> bool" where
  "succeeded g = (transitions g = [Loading, Result])"

definition entryOf :: "Api \<Rightarrow> nat \<Rightarrow> App \<Rightarrow> HistoryItem" where
  "entryOf api now s = newHistoryItem s now (resultImages (final (handleGenerate api now s)))"

fun entryOfEvent :: "App \<Rightarrow> event \<Rightarrow> HistoryItem list" where
  "entryOfEvent s (Generate api now) =
     (if succeeded (handleGenerate api now s) then [entryOf api now s] else [])"
| "entryOfEvent s e = []"

fun entries :: "App \<Rightarrow> event list \<Rightarrow> HistoryItem list" where
  "entries s [] = []"
| "entries s (e # es) = entryOfEvent s e @ entries (step s e) es"

subsection \<open>The scene clause\<close>

text \<open>The label of the clause of the scene template that carries the user's description.\<close>

definition sceneClause :: string where
  "sceneClause = ''USER SCENE DESCRIPTION''"

section \<open>An example session\<close>

text \<open>
  A PNG file of one byte, a service that answers the i-th request of a batch with its own
  image (the later requests settling first), a service whose second request is rejected, and
  a session that sets up the product mode and generates eleven times.
\<close>

definition exampleFile :: File where
  "exampleFile = \<lparr>file_type = ''image/png'', file_bytes = [65]\<rparr>"

definition imageResponse :: "string \<Rightarrow> Response" where
  "imageResponse d =
     Response (Some [Candidate (Some (Content (Some
       [\<lparr>part_inlineData = Some \<lparr>blob_data = Some d, blob_mimeType = Some ''image/png''\<rparr>,
         part_text = None\<rparr>])))])"

definition exampleApi :: Api where
  "exampleApi i parts = \<lparr>settledAt = 10 - i, settled = Inr (imageResponse (''Qw'' @ string_of_nat i))\<rparr>"

definition failingApi :: Api where
  "failingApi i parts =
     (if i = 1 then \<lparr>settledAt = 0, settled = Inl (Error ''quota exceeded'')\<rparr> else exampleApi i parts)"

definition exampleApp :: App where
  "exampleApp =
     run initialApp
       [SetMode Product, FileChange ProductSlot (Some exampleFile) True,
        SetProductPrompt ''on a desk'', SetNumberOfImages 2]"

definition exampleSession :: "event list" where
  "exampleSession =
     [SetMode Product, FileChange ProductSlot (Some exampleFile) True,
      SetProductPrompt ''on a desk''] @
     map (Generate exampleApi) [1..<12]"


text \<open>
  A GIF file of three bytes; a response whose only part is a text; and a response whose
  first part has an \<^verbatim>\<open>inlineData\<close> without data, before a part that carries an image.
\<close>

definition gifFile :: File where
  "gifFile = \<lparr>file_type = ''image/gif'', file_bytes = [71, 73, 70]\<rparr>"

definition textOnlyResponse :: Response where
  "textOnlyResponse =
     Response (Some [Candidate (Some (Content (Some
       [\<lparr>part_inlineData = None, part_text = Some ''I cannot draw that.''\<rparr>])))])"

definition emptyFirstResponse :: Response where
  "emptyFirstResponse =
     Response (Some [Candidate (Some (Content (Some
       [\<lparr>part_inlineData = Some \<lparr>blob_data = None, blob_mimeType = Some ''image/png''\<rparr>,
         part_text = None\<rparr>,
        \<lparr>part_inlineData = Some \<lparr>blob_data = Some ''Qw=='', blob_mimeType = Some ''image/png''\<rparr>,
         part_text = None\<rparr>])))])"

section \<open>Aspect ratio clause\<close>

text \<open>
  C8, as the code has it: the clause is \<open>a square (1:1)\<close>, \<open>a portrait (3:4)\<close> and
  \<open>a landscape (4:3)\<close> for the three fixed ratios; for \<open>custom\<close> it is \<open>a (W:H)\<close> with the
  decimal digits of W and H when both are positive (and below \<open>2 ^ 53\<close>, where JavaScript
  prints an integer digit by digit), and \<open>a (custom)\<close> when either is zero.
\<close>

theorem C8_aspect_ratio_clause:
  "getAspectRatioDescription ''1:1'' w h = ''a square (1:1)'' \<and>
   getAspectRatioDescription ''3:4'' w h = ''a portrait (3:4)'' \<and>
   getAspectRatioDescription ''4:3'' w h = ''a landscape (4:3)'' \<and>
   (0 < w \<and> 0 < h \<and> w < 2 ^ 53 \<and> h < 2 ^ 53 \<longrightarrow>
      getAspectRatioDescription ''custom'' w h =
        ''a ('' @ string_of_nat w @ '':'' @ string_of_nat h @ '')'') \<and>
   (w = 0 \<or> h = 0 \<longrightarrow> getAspectRatioDescription ''custom'' w h = ''a (custom)'')"
  by (simp add: getAspectRatioDescription_def)

theorem C8_aspect_ratio_clause_witness:
  "getAspectRatioDescription ''custom'' 1024 768 = ''a (1024:768)'' \<and>
   getAspectRatioDescription ''custom'' 0 768 = ''a (custom)'' \<and>
   getAspectRatioDescription ''1:1'' 1024 768 = ''a square (1:1)''"
proof -
  have a: "string_of_nat 1024 = ''1024''" by code_simp
  have b: "string_of_nat 768 = ''768''" by code_simp
  show ?thesis
    using C8_aspect_ratio_clause [of 1024 768] C8_aspect_ratio_clause [of 0 768] a b by simp
qed

text \<open>
  The size fields accept 0 (an emptied field parses to \<^verbatim>\<open>NaN\<close>, which is stored as 0),
  and then the clause for \<open>custom\<close> is not \<open>a (0:1024)\<close>.
\<close>

theorem C8_custom_zero_counterexample:
  "customWidth (step initialApp (SetCustomWidth (Some 0))) = 0 \<and>
   getAspectRatioDescription ''custom'' 0 1024 = ''a (custom)'' \<and>
   getAspectRatioDescription ''custom'' 0 1024 \<noteq> ''a ('' @ string_of_nat 0 @ '':'' @ string_of_nat 1024 @ '')''"
  by (simp add: getAspectRatioDescription_def parsedSize_def initialApp_def)

section \<open>Request parts of the character mode\<close>

text \<open>
  C5: the parts list of \<^verbatim>\<open>generateCharacterPlacementImage\<close> is character image, product
  image and instruction text when no outfit image is given (3 parts), and character image,
  product image, outfit image and instruction text when one is (4 parts); every part but
  the last is an image, the last is the text, and an outfit part is in the list exactly when
  that outfit was supplied.
\<close>

theorem C5_character_parts:
  "characterPlacementParts c p None u r w h =
     [InlineData (base64 c) (mimeType c), InlineData (base64 p) (mimeType p),
      TextPart (characterPrompt_text False u r w h)] \<and>
   characterPlacementParts c p (Some outfit) u r w h =
     [InlineData (base64 c) (mimeType c), InlineData (base64 p) (mimeType p),
      InlineData (base64 outfit) (mimeType outfit),
      TextPart (characterPrompt_text True u r w h)] \<and>
   length (characterPlacementParts c p opt u r w h) = (if opt = None then 3 else 4) \<and>
   list_all isImagePart (butlast (characterPlacementParts c p opt u r w h)) \<and>
   \<not> isImagePart (last (characterPlacementParts c p opt u r w h)) \<and>
   (InlineData (base64 img) (mimeType img) \<in> set (drop 2 (characterPlacementParts c p opt u r w h))
      \<longleftrightarrow> opt = Some img)"
  by (cases opt) (auto simp add: characterPlacementParts_def base64ToGenerativePart_def)

theorem C5_character_parts_witness:
  "length (characterPlacementParts \<lparr>base64 = ''QQ=='', mimeType = ''image/png''\<rparr>
             \<lparr>base64 = ''Qg=='', mimeType = ''image/jpeg''\<rparr>
             (Some \<lparr>base64 = ''Qw=='', mimeType = ''image/webp''\<rparr>) ''smile'' ''1:1'' 1024 1024) = 4 \<and>
   InlineData ''Qw=='' ''image/webp'' \<in> set (drop 2 (characterPlacementParts \<lparr>base64 = ''QQ=='', mimeType = ''image/png''\<rparr>
             \<lparr>base64 = ''Qg=='', mimeType = ''image/jpeg''\<rparr>
             (Some \<lparr>base64 = ''Qw=='', mimeType = ''image/webp''\<rparr>) ''smile'' ''1:1'' 1024 1024))"
  using C5_character_parts [of "\<lparr>base64 = ''QQ=='', mimeType = ''image/png''\<rparr>"
      "\<lparr>base64 = ''Qg=='', mimeType = ''image/jpeg''\<rparr>" "''smile''" "''1:1''" 1024 1024
      "\<lparr>base64 = ''Qw=='', mimeType = ''image/webp''\<rparr>"
      "Some \<lparr>base64 = ''Qw=='', mimeType = ''image/webp''\<rparr>"
      "\<lparr>base64 = ''Qw=='', mimeType = ''image/webp''\<rparr>"]
  by simp

section \<open>Start over\<close>

text \<open>
  C10: \<^verbatim>\<open>handleStartOver\<close> sets the state to \<open>Idle\<close>, clears the four images, both
  prompts, the result images and the error, sets the number of images to 1 and the aspect
  ratio to \<open>1:1\<close>, and leaves the history list as it was.
\<close>

theorem C10_start_over:
  "appState (handleStartOver s) = Idle \<and>
   characterImage (handleStartOver s) = None \<and>
   productImage (handleStartOver s) = None \<and>
   outfitImage (handleStartOver s) = None \<and>
   backgroundImage (handleStartOver s) = None \<and>
   characterPrompt (handleStartOver s) = [] \<and>
   productPrompt (handleStartOver s) = [] \<and>
   resultImages (handleStartOver s) = [] \<and>
   error (handleStartOver s) = None \<and>
   numberOfImages (handleStartOver s) = 1 \<and>
   aspectRatio (handleStartOver s) = ''1:1'' \<and>
   history (handleStartOver s) = history s"
  by (simp add: handleStartOver_def)

section \<open>Generating a batch\<close>

lemma generationLoop_ok:
  "buildRequest s = Inr req \<Longrightarrow> generationLoop s k sent = (sent @ replicate k req, None)"
proof (induction k arbitrary: sent)
  case 0
  then show ?case by simp
next
  case (Suc k)
  then show ?case by (simp add: replicate_app_Cons_same)
qed

lemma generationLoop_throws:
  "buildRequest s = Inl e \<Longrightarrow> generationLoop s k [] = ([], if k = 0 then None else Some e)"
  by (cases k) simp_all

lemma parseDataUrl_error:
  "parseDataUrl u = Inl e \<Longrightarrow> e = Error ''Invalid image data URL.''"
  by (auto simp add: parseDataUrl_def Let_def split: option.splits if_splits)

lemma parseSlot_error:
  "parseSlot v = Inl e \<Longrightarrow> \<exists>msg. e = Error msg \<and> msg \<noteq> []"
  by (auto simp add: parseSlot_def split: option.splits dest: parseDataUrl_error)

lemma parseOptionalSlot_error:
  "parseOptionalSlot v = Inl e \<Longrightarrow> \<exists>msg. e = Error msg \<and> msg \<noteq> []"
  by (auto simp add: parseOptionalSlot_def split: if_splits sum.splits dest: parseSlot_error)

lemma buildRequest_error:
  "buildRequest s = Inl e \<Longrightarrow> \<exists>msg. e = Error msg \<and> msg \<noteq> []"
  by (auto simp add: buildRequest_def split: if_splits sum.splits
      dest: parseSlot_error parseOptionalSlot_error)

lemma executeImageGeneration_data:
  "executeImageGeneration r = Inr g \<Longrightarrow> imageData_data g \<noteq> []"
  by (auto simp add: executeImageGeneration_def Let_def truthy_def
      split: sum.splits option.splits if_splits)

lemma runTask_rejects:
  "snd (runTask m api t) = Inl e \<Longrightarrow> \<exists>msg. e = Error msg \<and> msg \<noteq> []"
  by (auto simp add: runTask_def Let_def generateCharacterPlacementImage_def
      generateProductConceptImage_def split: if_splits sum.splits)

lemma runTask_fulfils:
  "snd (runTask m api t) = Inr g \<Longrightarrow> imageData_data g \<noteq> []"
  by (auto simp add: runTask_def Let_def generateCharacterPlacementImage_def
      generateProductConceptImage_def split: if_splits sum.splits
      dest: executeImageGeneration_data)

lemma firstRejection_member:
  "firstRejection ps = Some r \<Longrightarrow> (fst r, Inl (snd r)) \<in> set ps"
  by (induction ps arbitrary: r rule: firstRejection.induct)
     (auto split: option.splits if_splits)

lemma firstRejection_None:
  "firstRejection ps = None \<longleftrightarrow> (\<forall>p \<in> set ps. \<exists>v. snd p = Inr v)"
  by (induction ps rule: firstRejection.induct) (auto split: option.splits if_splits)

lemma fulfilled_all:
  "\<forall>i < length ps. snd (ps ! i) = Inr (f i) \<Longrightarrow> fulfilled ps = map f [0..<length ps]"
proof (induction ps arbitrary: f rule: fulfilled.induct)
  case 1
  then show ?case by simp
next
  case (2 t v rest)
  from 2(2) have v: "v = f 0" by auto
  from 2(2) have "\<forall>i < length rest. snd (rest ! i) = Inr ((f \<circ> Suc) i)" by auto
  from 2(1) [OF this] have "fulfilled rest = map (f \<circ> Suc) [0..<length rest]" .
  then show ?case using v by (simp add: upt_conv_Cons map_Suc_upt [symmetric] del: upt_Suc)
next
  case (3 t e rest)
  from 3(2) have "snd (((t, Inl e) # rest) ! 0) = Inr (f 0)" by blast
  then show ?case by simp
qed

lemma toDataUrls_ok:
  "\<forall>r \<in> set rs. imageData_data r \<noteq> [] \<Longrightarrow> toDataUrls rs = Inr (map toDataUrl rs)"
  by (induction rs) auto

lemma toDataUrls_error:
  "toDataUrls rs = Inl e \<Longrightarrow> \<exists>msg. e = Error msg \<and> msg \<noteq> []"
  by (induction rs arbitrary: e) (auto split: if_splits sum.splits)

lemma enumerate_replicate:
  "enumerate 0 (replicate n x) = map (\<lambda>i. (i, x)) [0..<n]"
  by (simp add: enumerate_eq_zip zip_replicate2)


lemma handleGenerate_success:
  assumes v: "validationError s = None"
    and b: "buildRequest s = Inr req"
    and ok: "\<forall>i < numberOfImages s. snd (runTask (mode s) api (i, req)) = Inr (imgs i)"
  shows "handleGenerate api now s =
     \<lparr>final = s\<lparr>error := None, appState := Loading\<rparr>
        \<lparr>history := take 10 (newHistoryItem s now (map (\<lambda>i. toDataUrl (imgs i)) [0..<numberOfImages s]) # history s),
         resultImages := map (\<lambda>i. toDataUrl (imgs i)) [0..<numberOfImages s],
         appState := Result\<rparr>,
      dispatched = replicate (numberOfImages s) req,
      transitions = [Loading, Result]\<rparr>"
proof -
  let ?n = "numberOfImages s"
  let ?ps = "map (runTask (mode s) api) (enumerate 0 (replicate ?n req))"
  have loop: "generationLoop s ?n [] = (replicate ?n req, None)"
    using generationLoop_ok [OF b, of ?n "[]"] by simp
  have nth: "\<forall>i < length ?ps. snd (?ps ! i) = Inr (imgs i)"
    using ok by (simp add: enumerate_replicate)
  have len: "length ?ps = ?n" by (simp add: enumerate_replicate)
  have none: "firstRejection ?ps = None"
    unfolding firstRejection_None
  proof
    fix p assume "p \<in> set ?ps"
    then obtain i where "i < length ?ps" "p = ?ps ! i" by (auto simp add: in_set_conv_nth)
    with nth show "\<exists>v. snd p = Inr v" by auto
  qed
  have ful: "fulfilled ?ps = map imgs [0..<?n]"
    using fulfilled_all [OF nth] len by simp
  have all: "Promise_all ?ps = Inr (map imgs [0..<?n])"
    by (simp add: Promise_all_def none ful)
  have "\<forall>r \<in> set (map imgs [0..<?n]). imageData_data r \<noteq> []"
    using ok runTask_fulfils by fastforce
  then have urls: "toDataUrls (map imgs [0..<?n]) = Inr (map (\<lambda>i. toDataUrl (imgs i)) [0..<?n])"
    using toDataUrls_ok [of "map imgs [0..<?n]"] by (simp add: comp_def)
  show ?thesis
    by (simp add: handleGenerate_def v loop all urls)
qed

lemma handleGenerate_outcomes:
  assumes v: "validationError s = None"
  shows "(\<exists>imgs. handleGenerate api now s =
            \<lparr>final = s\<lparr>error := None, appState := Loading\<rparr>
               \<lparr>history := take 10 (newHistoryItem s now imgs # history s),
                resultImages := imgs, appState := Result\<rparr>,
             dispatched = fst (generationLoop s (numberOfImages s) []),
             transitions = [Loading, Result]\<rparr>) \<or>
         (\<exists>msg. msg \<noteq> [] \<and> handleGenerate api now s =
            \<lparr>final = s\<lparr>error := Some msg, appState := Idle\<rparr>,
             dispatched = fst (generationLoop s (numberOfImages s) []),
             transitions = [Loading, Idle]\<rparr>)"
proof -
  let ?loop = "generationLoop s (numberOfImages s) []"
  let ?ps = "map (runTask (mode s) api) (enumerate 0 (fst ?loop))"
  show ?thesis
  proof (cases "snd ?loop")
    case (Some e)
    have "\<exists>msg. e = Error msg \<and> msg \<noteq> []"
    proof (cases "buildRequest s")
      case (Inl e')
      with Some generationLoop_throws [OF Inl, of "numberOfImages s"] buildRequest_error [OF Inl]
      show ?thesis by (auto split: if_splits)
    next
      case (Inr req)
      with Some generationLoop_ok [OF Inr, of "numberOfImages s" "[]"] show ?thesis by simp
    qed
    then show ?thesis
      using Some by (auto simp add: handleGenerate_def v failWith_def)
  next
    case None
    show ?thesis
    proof (cases "Promise_all ?ps")
      case (Inl e)
      then obtain r where r: "firstRejection ?ps = Some r" "e = snd r"
        by (auto simp add: Promise_all_def split: option.splits)
      from firstRejection_member [OF r(1)] obtain t where "runTask (mode s) api t = (fst r, Inl e)"
        using r(2) by (auto simp add: image_iff)
      then have "snd (runTask (mode s) api t) = Inl e" by simp
      from runTask_rejects [OF this] show ?thesis
        using None Inl by (auto simp add: handleGenerate_def v failWith_def)
    next
      case (Inr results)
      show ?thesis
      proof (cases "toDataUrls results")
        case (Inl e)
        from toDataUrls_error [OF this] show ?thesis
          using None Inr Inl by (auto simp add: handleGenerate_def v failWith_def)
      next
        case (Inr urls)
        then show ?thesis
          using None \<open>Promise_all ?ps = Inr results\<close> by (auto simp add: handleGenerate_def v)
      qed
    qed
  qed
qed

lemma handleGenerate_failure:
  assumes v: "validationError s = None"
    and b: "buildRequest s = Inr req"
    and i: "i < numberOfImages s"
    and rej: "snd (runTask (mode s) api (i, req)) = Inl e"
  shows "\<exists>msg. msg \<noteq> [] \<and> handleGenerate api now s =
            \<lparr>final = s\<lparr>error := Some msg, appState := Idle\<rparr>,
             dispatched = replicate (numberOfImages s) req,
             transitions = [Loading, Idle]\<rparr>"
proof -
  let ?n = "numberOfImages s"
  let ?ps = "map (runTask (mode s) api) (enumerate 0 (replicate ?n req))"
  have loop: "generationLoop s ?n [] = (replicate ?n req, None)"
    using generationLoop_ok [OF b, of ?n "[]"] by simp
  have "runTask (mode s) api (i, req) \<in> set ?ps"
    using i by (simp add: enumerate_replicate)
  with rej have "firstRejection ?ps \<noteq> None"
    unfolding firstRejection_None by force
  then obtain r where r: "firstRejection ?ps = Some r" by blast
  from firstRejection_member [OF r] obtain t where "runTask (mode s) api t = (fst r, Inl (snd r))"
    by (auto simp add: image_iff)
  then have "snd (runTask (mode s) api t) = Inl (snd r)" by simp
  from runTask_rejects [OF this] obtain msg where msg: "snd r = Error msg" "msg \<noteq> []" by blast
  have "Promise_all ?ps = Inl (Error msg)"
    by (simp add: Promise_all_def r msg)
  then have "handleGenerate api now s =
            \<lparr>final = s\<lparr>error := Some msg, appState := Idle\<rparr>,
             dispatched = replicate (numberOfImages s) req,
             transitions = [Loading, Idle]\<rparr>"
    by (simp add: handleGenerate_def v loop failWith_def)
  with msg(2) show ?thesis by blast
qed

text \<open>
  C3: when the character mode lacks the character or the product image, or the product
  mode lacks the product image or has neither a prompt that is not blank nor a background
  image, \<^verbatim>\<open>handleGenerate\<close> sets an error message that is not empty, sends no
  request and never calls \<^verbatim>\<open>setAppState\<close>: the state is not set to \<open>Loading\<close> and an
  \<open>Idle\<close> application stays \<open>Idle\<close>.
\<close>

theorem C3_validation_failure:
  assumes "(mode s = Character \<and> (\<not> truthy (characterImage s) \<or> \<not> truthy (productImage s))) \<or>
           (mode s = Product \<and> (\<not> truthy (productImage s) \<or>
              (trim (productPrompt s) = [] \<and> \<not> truthy (backgroundImage s))))"
  shows "(\<exists>msg. error (final (handleGenerate api now s)) = Some msg \<and> msg \<noteq> []) \<and>
         dispatched (handleGenerate api now s) = [] \<and>
         transitions (handleGenerate api now s) = [] \<and>
         appState (final (handleGenerate api now s)) = appState s \<and>
         (appState s = Idle \<longrightarrow> appState (final (handleGenerate api now s)) = Idle)"
proof -
  from assms have "\<exists>msg. validationError s = Some msg \<and> msg \<noteq> []"
    by (auto simp add: validationError_def currentPrompt_def)
  then show ?thesis
    by (auto simp add: handleGenerate_def)
qed

text \<open>
  C2: when the inputs are valid and one of the requests of the batch rejects, no result
  image is displayed, \<open>resultImages\<close> is what it was before the batch, the error is a
  message that is not empty, the state is \<open>Idle\<close> and the history is unchanged.
\<close>

theorem C2_failed_batch:
  assumes "validationError s = None"
    and "buildRequest s = Inr req"
    and "i < numberOfImages s"
    and "snd (runTask (mode s) api (i, req)) = Inl e"
  shows "displayedResults (final (handleGenerate api now s)) = [] \<and>
         resultImages (final (handleGenerate api now s)) = resultImages s \<and>
         (\<exists>msg. error (final (handleGenerate api now s)) = Some msg \<and> msg \<noteq> []) \<and>
         appState (final (handleGenerate api now s)) = Idle \<and>
         history (final (handleGenerate api now s)) = history s"
proof -
  from handleGenerate_failure [OF assms, of now]
  obtain msg where "msg \<noteq> []"
    and "handleGenerate api now s =
           \<lparr>final = s\<lparr>error := Some msg, appState := Idle\<rparr>,
            dispatched = replicate (numberOfImages s) req, transitions = [Loading, Idle]\<rparr>"
    by blast
  then show ?thesis by (simp add: displayedResults_def)
qed

text \<open>
  C1: when the inputs are valid, the image slots parse to the request \<open>req\<close> and each of
  the N requests resolves with an image, \<^verbatim>\<open>handleGenerate\<close> sends exactly N requests,
  sets \<open>resultImages\<close> to the N data URLs of these images in the order of the requests,
  and ends in \<open>Result\<close>.
\<close>

theorem C1_successful_batch:
  assumes "validationError s = None"
    and "buildRequest s = Inr req"
    and "\<forall>i < numberOfImages s. snd (runTask (mode s) api (i, req)) = Inr (imgs i)"
  shows "dispatched (handleGenerate api now s) = replicate (numberOfImages s) req \<and>
         length (dispatched (handleGenerate api now s)) = numberOfImages s \<and>
         resultImages (final (handleGenerate api now s)) =
           map (\<lambda>i. toDataUrl (imgs i)) [0..<numberOfImages s] \<and>
         length (resultImages (final (handleGenerate api now s))) = numberOfImages s \<and>
         appState (final (handleGenerate api now s)) = Result \<and>
         transitions (handleGenerate api now s) = [Loading, Result]"
  by (simp add: handleGenerate_success [OF assms])

lemma handleFileChange_history: "history (handleFileChange slot file ok s) = history s"
  by (simp add: handleFileChange_def handleImageUpload_def setSlot_def Let_def
      split: option.splits Slot.splits)

lemma handleGenerate_history:
  "history (final (handleGenerate api now s)) =
     take 10 (entryOfEvent s (Generate api now) @ history s) \<or>
   history (final (handleGenerate api now s)) = entryOfEvent s (Generate api now) @ history s \<and>
   entryOfEvent s (Generate api now) = []"
proof (cases "validationError s")
  case (Some msg)
  then show ?thesis by (simp add: handleGenerate_def succeeded_def)
next
  case None
  from handleGenerate_outcomes [OF None, of api now] show ?thesis
    by (auto simp add: succeeded_def entryOf_def)
qed

lemma step_history:
  assumes "length (history s) \<le> 10"
  shows "history (step s e) = take 10 (entryOfEvent s e @ history s)"
proof (cases e)
  case (Generate api now)
  with handleGenerate_history [of api now s] assms show ?thesis by auto
qed (use assms in \<open>simp_all add: handleFileChange_history handleImageClear_def setSlot_def
      handleStartOver_def handleContinue_def handleReuseHistoryItem_def Let_def
      handleOpenZoomModal_def handleCloseZoomModal_def split: Slot.splits\<close>)

lemma take_append_take: "take n (xs @ take n ys) = take n (xs @ ys)"
  by (simp add: min_def)

lemma entryOfEvent_length: "length (entryOfEvent s e) \<le> 1"
  by (cases e) simp_all

lemma rev_short: "length xs \<le> 1 \<Longrightarrow> rev xs = xs"
  by (cases xs) auto

lemma run_history:
  "length (history s) \<le> 10 \<Longrightarrow> history (run s es) = take 10 (rev (entries s es) @ history s)"
proof (induction es arbitrary: s)
  case Nil
  then show ?case by simp
next
  case (Cons e es)
  have h: "history (step s e) = take 10 (entryOfEvent s e @ history s)"
    using step_history [OF Cons.prems] .
  then have "length (history (step s e)) \<le> 10" by simp
  from Cons.IH [OF this] have
    "history (run (step s e) es) = take 10 (rev (entries (step s e) es) @ history (step s e))" .
  also have "\<dots> = take 10 (rev (entries (step s e) es) @ entryOfEvent s e @ history s)"
    unfolding h by (rule take_append_take)
  finally show ?case
    by (simp add: rev_short [OF entryOfEvent_length])
qed

lemma exampleApp_eq:
  "exampleApp = initialApp\<lparr>mode := Product, productImage := Some ''data:image/png;base64,QQ=='',
     productPrompt := ''on a desk'', numberOfImages := 2\<rparr>"
  by (simp add: exampleApp_def handleFileChange_def exampleFile_def readAsDataURL_def dataUrlType_def
      base64_char_def truthy_def handleImageUpload_def setSlot_def)

lemma exampleApp_valid: "validationError exampleApp = None"
  by (simp add: exampleApp_eq validationError_def initialApp_def truthy_def currentPrompt_def
      trim_def isWhiteSpace_def)

lemma exampleApp_request:
  "buildRequest exampleApp =
     Inr (productConceptParts \<lparr>base64 = ''QQ=='', mimeType = ''image/png''\<rparr> None
            ''on a desk'' ''1:1'' 1024 1024)"
  by (simp add: exampleApp_eq buildRequest_def initialApp_def parseSlot_def parseDataUrl_def
      dataUrlHeader_def parseOptionalSlot_def truthy_def currentPrompt_def isLineTerminator_def)

lemma exampleApi_task:
  "snd (runTask Product exampleApi (i, req)) =
     Inr \<lparr>imageData_data = ''Qw'' @ string_of_nat i, imageData_mimeType = Some ''image/png''\<rparr>"
  by (simp add: runTask_def exampleApi_def imageResponse_def generateProductConceptImage_def
      executeImageGeneration_def responseParts_def findInlineData_def inlineDataOf_def
      mimeTypeOf_def truthy_def del: string_of_nat.simps)

lemma failingApi_task:
  "snd (runTask Product failingApi (1, req)) =
     Inl (Error ''Failed to generate product concept. quota exceeded'')"
  by (simp add: runTask_def failingApi_def generateProductConceptImage_def
      executeImageGeneration_def errorMessageOrEmpty_def)

lemma exampleSession_ids:
  "map item_id (entries initialApp exampleSession) = [1, 2, 3, 4, 5, 6, 7, 8, 9, 10, 11]"
  by code_simp

lemma exampleApp_fields:
  "mode exampleApp = Product" "numberOfImages exampleApp = 2" "history exampleApp = []"
  by (simp_all add: exampleApp_eq initialApp_def)

lemma exampleApp_tasks:
  "\<forall>i < numberOfImages exampleApp.
      snd (runTask (mode exampleApp) exampleApi
             (i, productConceptParts \<lparr>base64 = ''QQ=='', mimeType = ''image/png''\<rparr> None
                   ''on a desk'' ''1:1'' 1024 1024)) =
      Inr \<lparr>imageData_data = ''Qw'' @ string_of_nat i, imageData_mimeType = Some ''image/png''\<rparr>"
  unfolding exampleApp_fields using exampleApi_task by blast

lemma exampleApp_succeeds: "succeeded (handleGenerate exampleApi now exampleApp)"
  by (simp add: handleGenerate_success [OF exampleApp_valid exampleApp_request exampleApp_tasks]
      succeeded_def)

theorem C1_successful_batch_witness:
  "numberOfImages exampleApp = 2 \<and>
   length (dispatched (handleGenerate exampleApi 1 exampleApp)) = 2 \<and>
   resultImages (final (handleGenerate exampleApi 1 exampleApp)) =
     [''data:image/png;base64,Qw0'', ''data:image/png;base64,Qw1''] \<and>
   appState (final (handleGenerate exampleApi 1 exampleApp)) = Result"
proof -
  have u: "[0..<2] = [0, Suc 0]" by (simp add: upt_conv_Cons)
  show ?thesis
    using C1_successful_batch [OF exampleApp_valid exampleApp_request exampleApp_tasks, of 1]
    by (simp add: exampleApp_fields u toDataUrl_def digit_char_def)
qed

theorem C2_failed_batch_witness:
  "(\<exists>msg. error (final (handleGenerate failingApi 1 exampleApp)) = Some msg \<and> msg \<noteq> []) \<and>
   displayedResults (final (handleGenerate failingApi 1 exampleApp)) = [] \<and>
   appState (final (handleGenerate failingApi 1 exampleApp)) = Idle \<and>
   history (final (handleGenerate failingApi 1 exampleApp)) = []"
proof -
  have n: "1 < numberOfImages exampleApp"
    by (simp add: exampleApp_fields)
  have rej: "snd (runTask (mode exampleApp) failingApi
             (1, productConceptParts \<lparr>base64 = ''QQ=='', mimeType = ''image/png''\<rparr> None
                   ''on a desk'' ''1:1'' 1024 1024)) =
      Inl (Error ''Failed to generate product concept. quota exceeded'')"
    unfolding exampleApp_fields by (rule failingApi_task)
  show ?thesis
    using C2_failed_batch [OF exampleApp_valid exampleApp_request n rej, of 1]
    by (simp add: exampleApp_fields)
qed

theorem C3_validation_failure_witness:
  "(\<exists>msg. error (final (handleGenerate exampleApi 1 initialApp)) = Some msg \<and> msg \<noteq> []) \<and>
   dispatched (handleGenerate exampleApi 1 initialApp) = [] \<and>
   transitions (handleGenerate exampleApi 1 initialApp) = [] \<and>
   appState (final (handleGenerate exampleApi 1 initialApp)) = Idle"
proof -
  have "mode initialApp = Character \<and> \<not> truthy (characterImage initialApp)"
    and i: "appState initialApp = Idle"
    by (simp_all add: initialApp_def truthy_def)
  then show ?thesis
    using C3_validation_failure [of initialApp exampleApi 1] by simp
qed

text \<open>
  C4: in every session the history has at most 10 entries; a generation that succeeds puts
  its entry at the front of the history (and keeps the 9 most recent of the others); after
  11 successful generations the history holds the entries of the 11th down to the 2nd, the
  11th at index 0, and the entry of the 1st is not in it (entries told apart by their id).
\<close>

theorem C4_history_cap:
  "length (history (run initialApp es)) \<le> 10 \<and>
   (succeeded (handleGenerate api now s) \<longrightarrow>
      history (final (handleGenerate api now s)) = entryOf api now s # take 9 (history s)) \<and>
   (length (entries initialApp es) = 11 \<longrightarrow>
      history (run initialApp es) = rev (tl (entries initialApp es)) \<and>
      history (run initialApp es) ! 0 = entries initialApp es ! 10 \<and>
      (distinct (map item_id (entries initialApp es)) \<longrightarrow>
         entries initialApp es ! 0 \<notin> set (history (run initialApp es))))"
proof -
  have init: "length (history initialApp) \<le> 10" and empty: "history initialApp = []"
    by (simp_all add: initialApp_def)
  have run: "history (run initialApp es) = take 10 (rev (entries initialApp es))"
    using run_history [OF init, of es] empty by simp
  have a: "length (history (run initialApp es)) \<le> 10"
    unfolding run by simp
  have b: "history (final (handleGenerate api now s)) = entryOf api now s # take 9 (history s)"
    if "succeeded (handleGenerate api now s)"
    using that handleGenerate_history [of api now s] by (auto split: if_splits)
  have c: "history (run initialApp es) = rev (tl (entries initialApp es)) \<and>
      history (run initialApp es) ! 0 = entries initialApp es ! 10 \<and>
      (distinct (map item_id (entries initialApp es)) \<longrightarrow>
         entries initialApp es ! 0 \<notin> set (history (run initialApp es)))"
    if len: "length (entries initialApp es) = 11"
  proof -
    let ?E = "entries initialApp es"
    from len obtain x xs where E: "?E = x # xs" and xs: "length xs = 10"
      by (cases ?E) auto
    have h: "history (run initialApp es) = rev xs"
      unfolding run E using xs by simp
    have "rev xs ! 0 = xs ! 9"
      using xs by (simp add: rev_nth)
    moreover have "distinct (map item_id (x # xs)) \<Longrightarrow> x \<notin> set xs"
      by auto
    ultimately show ?thesis
      unfolding h E by simp
  qed
  from a b c show ?thesis by blast
qed

theorem C4_history_cap_witness:
  "length (entries initialApp exampleSession) = 11 \<and>
   succeeded (handleGenerate exampleApi 1 exampleApp) \<and>
   map item_id (history (run initialApp exampleSession)) = [11, 10, 9, 8, 7, 6, 5, 4, 3, 2] \<and>
   item_id (entries initialApp exampleSession ! 0) = 1 \<and>
   entries initialApp exampleSession ! 0 \<notin> set (history (run initialApp exampleSession)) \<and>
   item_id (hd (history (final (handleGenerate exampleApi 1 exampleApp)))) = 1"
proof -
  let ?E = "entries initialApp exampleSession"
  have len: "length ?E = 11"
    using arg_cong [OF exampleSession_ids, of length] by simp
  have dist: "distinct (map item_id ?E)"
    unfolding exampleSession_ids by simp
  have ids: "map item_id (rev (tl ?E)) = [11, 10, 9, 8, 7, 6, 5, 4, 3, 2]"
    using exampleSession_ids by (simp add: rev_map [symmetric] map_tl)
  have first: "item_id (?E ! 0) = 1"
    using arg_cong [OF exampleSession_ids, of "\<lambda>xs. xs ! 0"] len by (simp add: nth_map)
  note c4 = C4_history_cap [of exampleSession exampleApi 1 exampleApp]
  from c4 len have h: "history (run initialApp exampleSession) = rev (tl ?E)"
    by blast
  from c4 len dist have notin: "?E ! 0 \<notin> set (history (run initialApp exampleSession))"
    by blast
  from c4 exampleApp_succeeds [of 1]
  have front: "history (final (handleGenerate exampleApi 1 exampleApp)) =
      entryOf exampleApi 1 exampleApp # take 9 (history exampleApp)"
    by blast
  have "map item_id (history (run initialApp exampleSession)) = [11, 10, 9, 8, 7, 6, 5, 4, 3, 2]"
    unfolding h by (rule ids)
  moreover have "item_id (hd (history (final (handleGenerate exampleApi 1 exampleApp)))) = 1"
    unfolding front by (simp add: entryOf_def newHistoryItem_def)
  ultimately show ?thesis
    using len exampleApp_succeeds [of 1] first notin by blast
qed

section \<open>The instruction of the product mode\<close>

lemma sublist_split_at:
  assumes "c \<notin> set n"
  shows "sublist n (A @ c # B) \<longleftrightarrow> sublist n A \<or> sublist n B"
proof
  assume "sublist n (A @ c # B)"
  then consider "sublist n A" | "sublist n (c # B)"
    | n1 n2 where "n = n1 @ n2" "suffix n1 A" "prefix n2 (c # B)"
    unfolding sublist_append by blast
  then show "sublist n A \<or> sublist n B"
  proof cases
    case 1
    then show ?thesis by simp
  next
    case 2
    then have "prefix n (c # B) \<or> sublist n B" by (simp add: sublist_Cons_right)
    with assms show ?thesis by (cases n) auto
  next
    case 3
    with assms show ?thesis by (cases n2) (auto simp add: suffix_imp_sublist)
  qed
next
  assume "sublist n A \<or> sublist n B"
  then show "sublist n (A @ c # B)"
    by (auto simp add: sublist_append sublist_Cons_right)
qed

lemma sublist_skip:
  assumes "c \<notin> set n" "n \<noteq> []"
  shows "sublist n (c # B) \<longleftrightarrow> sublist n B"
  using sublist_split_at [OF assms(1), of "[]" B] assms(2) by simp

lemma digit_char_digit: "digit_char d \<in> set ''0123456789''"
  unfolding digit_char_def by (rule nth_mem) simp

lemma digit_char_not_U: "digit_char d \<noteq> CHR ''U''"
  using digit_char_digit [of d] by auto

lemma string_of_nat_not_U: "CHR ''U'' \<notin> set (string_of_nat n)"
proof (induction n rule: string_of_nat.induct)
  case (1 n)
  show ?case
  proof (cases "n < 10")
    case True
    then show ?thesis using digit_char_not_U [of n] by auto
  next
    case False
    with 1 show ?thesis using digit_char_not_U [of "n mod 10"] by auto
  qed
qed

lemma sceneClause_digits: "\<not> sublist sceneClause (string_of_nat n)"
proof
  assume "sublist sceneClause (string_of_nat n)"
  then have "set sceneClause \<subseteq> set (string_of_nat n)" by (rule set_mono_sublist)
  moreover have "CHR ''U'' \<in> set sceneClause" by (simp add: sceneClause_def)
  ultimately show False using string_of_nat_not_U [of n] by blast
qed

lemma heads_clean:
  "\<not> sublist sceneClause background_head"
  "\<not> sublist sceneClause (background_mid @ output_clause)"
  "\<not> sublist sceneClause (background_mid @ ''\<newline>ADDITIONAL USER REQUEST: '')"
  "\<not> sublist sceneClause output_clause"
  by code_simp+

lemma sceneClause_chars:
  "CHR ''a'' \<notin> set sceneClause" "CHR '')'' \<notin> set sceneClause" "CHR ''('' \<notin> set sceneClause"
  "CHR '':'' \<notin> set sceneClause" "CHR 0x22 \<notin> set sceneClause" "sceneClause \<noteq> []"
  by (simp_all add: sceneClause_def)

lemma fixed_ratios_clean:
  "\<not> sublist sceneClause '' square (1:1''"
  "\<not> sublist sceneClause '' portrait (3:4''"
  "\<not> sublist sceneClause '' landscape (4:3''"
  "\<not> sublist sceneClause '' ''"
  by code_simp+

lemma description_shape:
  assumes "\<not> sublist sceneClause ratio"
  shows "\<exists>m. getAspectRatioDescription ratio w h = CHR ''a'' # m @ '')'' \<and> \<not> sublist sceneClause m"
proof -
  let ?custom = "'' ('' @ string_of_nat w @ '':'' @ string_of_nat h"
  have custom: "\<not> sublist sceneClause ?custom"
    using sublist_split_at [OF sceneClause_chars(4), of "'' ('' @ string_of_nat w" "string_of_nat h"]
      sublist_split_at [OF sceneClause_chars(3), of "'' ''" "string_of_nat w"]
      sceneClause_digits fixed_ratios_clean(4)
    by (simp del: string_of_nat.simps)
  have other: "\<not> sublist sceneClause ('' ('' @ ratio)"
    using sublist_split_at [OF sceneClause_chars(3), of "'' ''" ratio] assms fixed_ratios_clean(4)
    by simp
  show ?thesis
  proof (cases "ratio = ''custom'' \<and> w > 0 \<and> h > 0")
    case True
    then have "getAspectRatioDescription ratio w h = CHR ''a'' # ?custom @ '')''"
      by (simp add: getAspectRatioDescription_def del: string_of_nat.simps)
    with custom show ?thesis by blast
  next
    case notCustom: False
    show ?thesis
    proof (cases "ratio = ''1:1''")
      case True
      then have "getAspectRatioDescription ratio w h = CHR ''a'' # '' square (1:1'' @ '')''"
        by (simp add: getAspectRatioDescription_def)
      with fixed_ratios_clean(1) show ?thesis by blast
    next
      case notSquare: False
      show ?thesis
      proof (cases "ratio = ''3:4''")
        case True
        then have "getAspectRatioDescription ratio w h = CHR ''a'' # '' portrait (3:4'' @ '')''"
          by (simp add: getAspectRatioDescription_def)
        with fixed_ratios_clean(2) show ?thesis by blast
      next
        case notPortrait: False
        show ?thesis
        proof (cases "ratio = ''4:3''")
          case True
          then have "getAspectRatioDescription ratio w h = CHR ''a'' # '' landscape (4:3'' @ '')''"
            by (simp add: getAspectRatioDescription_def)
          with fixed_ratios_clean(3) show ?thesis by blast
        next
          case False
          have "getAspectRatioDescription ratio w h = CHR ''a'' # ('' ('' @ ratio) @ '')''"
            unfolding getAspectRatioDescription_def
            by (simp only: notCustom notSquare notPortrait False if_False) simp
          with other show ?thesis by blast
        qed
      qed
    qed
  qed
qed

lemma additionalRequest_clean:
  assumes "\<not> sublist sceneClause u"
  shows "\<not> sublist sceneClause (background_mid @ additionalRequest u @ output_clause)"
proof (cases "u = []")
  case True
  then show ?thesis using heads_clean(2) by (simp add: additionalRequest_def)
next
  case False
  have split: "background_mid @ additionalRequest u @ output_clause =
      (background_mid @ ''\<newline>ADDITIONAL USER REQUEST: '') @ CHR 0x22 # (u @ CHR 0x22 # output_clause)"
    using False by (simp add: additionalRequest_def additional_request_open_def quote_mark_def)
  show ?thesis
    unfolding split sublist_split_at [OF sceneClause_chars(5)]
    using heads_clean(3,4) assms by blast
qed

lemma background_prompt_clean:
  assumes "\<not> sublist sceneClause u" "\<not> sublist sceneClause ratio"
  shows "\<not> sublist sceneClause (productPrompt_text True u ratio w h)"
proof -
  from description_shape [OF assms(2), of w h] obtain m
    where m: "getAspectRatioDescription ratio w h = CHR ''a'' # m @ '')''" "\<not> sublist sceneClause m"
    by blast
  have split: "productPrompt_text True u ratio w h =
      background_head @ CHR ''a'' # (m @ CHR '')'' # (background_mid @ additionalRequest u @ output_clause))"
    by (simp add: productPrompt_text_def m(1))
  show ?thesis
    unfolding split sublist_split_at [OF sceneClause_chars(1)] sublist_split_at [OF sceneClause_chars(2)]
    using heads_clean(1) m(2) additionalRequest_clean [OF assms(1)] by blast
qed

lemma scene_prompt_contains:
  "sublist (''USER SCENE DESCRIPTION: '' @ quote_mark @ u @ quote_mark) (productPrompt_text False u ratio w h)"
proof -
  have "productPrompt_text False u ratio w h =
      (scene_head @ getAspectRatioDescription ratio w h @ '' aspect ratio.\<newline>\<newline>'') @
      (''USER SCENE DESCRIPTION: '' @ quote_mark @ u @ quote_mark) @ output_clause"
    by (simp add: productPrompt_text_def scene_mid_def quote_mark_def)
  then show ?thesis
    by (simp only: sublist_appendI)
qed

text \<open>
  C6, as the code has it: the instruction is the last part of the request; without a
  background image it contains the clause \<open>USER SCENE DESCRIPTION: "..."\<close> with the
  user's description verbatim; with a background image it does not contain
  \<open>USER SCENE DESCRIPTION\<close>, provided neither the user's request nor the aspect ratio
  value contains that text.
\<close>

theorem C6_scene_description:
  "last (productConceptParts p bg u r w h) = TextPart (productPrompt_text (bg \<noteq> None) u r w h) \<and>
   sublist (''USER SCENE DESCRIPTION: '' @ quote_mark @ u @ quote_mark)
     (productPrompt_text False u r w h) \<and>
   sublist u (productPrompt_text False u r w h) \<and>
   (\<not> sublist sceneClause u \<and> \<not> sublist sceneClause r \<longrightarrow>
      \<not> sublist sceneClause (productPrompt_text True u r w h))"
proof -
  have parts: "last (productConceptParts p bg u r w h) = TextPart (productPrompt_text (bg \<noteq> None) u r w h)"
    by (cases bg) (simp_all add: productConceptParts_def)
  have "sublist u (''USER SCENE DESCRIPTION: '' @ quote_mark @ u @ quote_mark)"
    using sublist_appendI [of u "''USER SCENE DESCRIPTION: '' @ quote_mark" quote_mark] by simp
  then have "sublist u (productPrompt_text False u r w h)"
    using scene_prompt_contains [of u r w h] sublist_order.order_trans by blast
  with parts scene_prompt_contains [of u r w h] background_prompt_clean [of u r w h]
  show ?thesis by blast
qed

theorem C6_scene_description_witness:
  "\<not> sublist sceneClause (productPrompt_text True ''on a desk'' ''1:1'' 1024 1024) \<and>
   sublist ''on a desk'' (productPrompt_text False ''on a desk'' ''1:1'' 1024 1024)"
proof -
  have "\<not> sublist sceneClause ''on a desk''" "\<not> sublist sceneClause ''1:1''"
    by code_simp+
  then show ?thesis
    using C6_scene_description [of "\<lparr>base64 = ''QQ=='', mimeType = ''image/png''\<rparr>" None
        "''on a desk''" "''1:1''" 1024 1024]
    by blast
qed

text \<open>
  With a background image, the user's request is quoted in the instruction, so a request
  that contains \<open>USER SCENE DESCRIPTION\<close> puts that text into the instruction.
\<close>

theorem C6_prompt_with_clause_counterexample:
  "last (productConceptParts \<lparr>base64 = ''QQ=='', mimeType = ''image/png''\<rparr>
           (Some \<lparr>base64 = ''Qg=='', mimeType = ''image/jpeg''\<rparr>)
           ''USER SCENE DESCRIPTION'' ''1:1'' 1024 1024) =
     TextPart (productPrompt_text True ''USER SCENE DESCRIPTION'' ''1:1'' 1024 1024) \<and>
   sublist ''USER SCENE DESCRIPTION''
     (productPrompt_text True ''USER SCENE DESCRIPTION'' ''1:1'' 1024 1024)"
proof -
  have "productPrompt_text True ''USER SCENE DESCRIPTION'' ''1:1'' 1024 1024 =
      (background_head @ getAspectRatioDescription ''1:1'' 1024 1024 @ background_mid @
         additional_request_open) @ ''USER SCENE DESCRIPTION'' @ (quote_mark @ output_clause)"
    by (simp add: productPrompt_text_def additionalRequest_def)
  then have "sublist ''USER SCENE DESCRIPTION''
     (productPrompt_text True ''USER SCENE DESCRIPTION'' ''1:1'' 1024 1024)"
    by (simp only: sublist_appendI)
  then show ?thesis
    by (simp add: productConceptParts_def)
qed

section \<open>The response of the model\<close>

text \<open>
  C7, as the code has it: \<^verbatim>\<open>executeImageGeneration\<close> returns an image exactly when the
  response has parts and the first part with an \<^verbatim>\<open>inlineData\<close> has data that is not
  empty; the image is that part's data and mimeType. Otherwise it throws: \<open>No parts found\<close>
  when the response has no parts, else \<open>Model did not return an image\<close> followed by the
  first text of the response that is not empty, or by \<open><no text>\<close>. A rejected request is
  rethrown.
\<close>

theorem C7_image_or_error:
  "(executeImageGeneration (Inr response) = Inr img \<longleftrightarrow>
      (\<exists>ps p b d. responseParts response = Some ps \<and> findInlineData ps = Some p \<and>
         part_inlineData p = Some b \<and> blob_data b = Some d \<and> d \<noteq> [] \<and>
         img = \<lparr>imageData_data = d, imageData_mimeType = blob_mimeType b\<rparr>)) \<and>
   (responseParts response = None \<longrightarrow>
      executeImageGeneration (Inr response) =
        Inl (Error ''Invalid response from model. No parts found.'')) \<and>
   (responseParts response = Some ps \<and> \<not> truthy (inlineDataOf (findInlineData ps)) \<longrightarrow>
      executeImageGeneration (Inr response) =
        Inl (Error (''Model did not return an image. Response: '' @
               (case findText ps of None \<Rightarrow> ''<no text>'' | Some t \<Rightarrow> t)))) \<and>
   executeImageGeneration (Inl e) = Inl e"
  by (auto simp add: executeImageGeneration_def Let_def truthy_def inlineDataOf_def mimeTypeOf_def
      split: option.splits)


theorem C7_image_or_error_witness:
  "executeImageGeneration (Inr (imageResponse ''Qw=='')) =
     Inr \<lparr>imageData_data = ''Qw=='', imageData_mimeType = Some ''image/png''\<rparr> \<and>
   executeImageGeneration (Inr (Response None)) =
     Inl (Error ''Invalid response from model. No parts found.'') \<and>
   executeImageGeneration (Inr textOnlyResponse) =
     Inl (Error ''Model did not return an image. Response: I cannot draw that.'')"
proof -
  let ?p = "\<lparr>part_inlineData = Some \<lparr>blob_data = Some ''Qw=='', blob_mimeType = Some ''image/png''\<rparr>,
             part_text = None\<rparr>"
  let ?t = "\<lparr>part_inlineData = None, part_text = Some ''I cannot draw that.''\<rparr>"
  have a: "responseParts (imageResponse ''Qw=='') = Some [?p]" "findInlineData [?p] = Some ?p"
    by (simp_all add: responseParts_def imageResponse_def findInlineData_def)
  have b: "responseParts (Response None) = None"
    by (simp add: responseParts_def)
  have c: "responseParts textOnlyResponse = Some [?t]" "\<not> truthy (inlineDataOf (findInlineData [?t]))"
    "findText [?t] = Some ''I cannot draw that.''"
    by (simp_all add: responseParts_def textOnlyResponse_def findInlineData_def inlineDataOf_def
        truthy_def findText_def)
  from C7_image_or_error [of "imageResponse ''Qw==''"
      "\<lparr>imageData_data = ''Qw=='', imageData_mimeType = Some ''image/png''\<rparr>" "[?p]" NonError] a
  have 1: "executeImageGeneration (Inr (imageResponse ''Qw=='')) =
     Inr \<lparr>imageData_data = ''Qw=='', imageData_mimeType = Some ''image/png''\<rparr>"
    by simp
  from C7_image_or_error [of "Response None" undefined "[]" NonError] b
  have 2: "executeImageGeneration (Inr (Response None)) =
     Inl (Error ''Invalid response from model. No parts found.'')"
    by blast
  from C7_image_or_error [of textOnlyResponse undefined "[?t]" NonError] c
  have 3: "executeImageGeneration (Inr textOnlyResponse) =
     Inl (Error ''Model did not return an image. Response: I cannot draw that.'')"
    by simp
  from 1 2 3 show ?thesis by blast
qed

text \<open>
  A response with a part that carries image data, behind a part whose \<^verbatim>\<open>inlineData\<close>
  has none: the code looks at the first \<^verbatim>\<open>inlineData\<close> only and throws.
\<close>

theorem C7_empty_first_part_counterexample:
  "responseParts emptyFirstResponse =
     Some [\<lparr>part_inlineData = Some \<lparr>blob_data = None, blob_mimeType = Some ''image/png''\<rparr>,
             part_text = None\<rparr>,
           \<lparr>part_inlineData = Some \<lparr>blob_data = Some ''Qw=='', blob_mimeType = Some ''image/png''\<rparr>,
             part_text = None\<rparr>] \<and>
   executeImageGeneration (Inr emptyFirstResponse) =
     Inl (Error ''Model did not return an image. Response: <no text>'')"
  by (simp add: emptyFirstResponse_def responseParts_def executeImageGeneration_def
      findInlineData_def inlineDataOf_def truthy_def findText_def)

section \<open>Image intake and data URLs\<close>

lemma base64_alphabet_plain:
  "list_all (\<lambda>c. \<not> isLineTerminator c)
     ''ABCDEFGHIJKLMNOPQRSTUVWXYZabcdefghijklmnopqrstuvwxyz0123456789+/''"
  by code_simp

lemma base64_char_plain: "\<not> isLineTerminator (base64_char n)"
proof -
  have "base64_char n \<in> set ''ABCDEFGHIJKLMNOPQRSTUVWXYZabcdefghijklmnopqrstuvwxyz0123456789+/''"
    unfolding base64_char_def by (rule nth_mem) simp
  with base64_alphabet_plain show ?thesis
    unfolding list_all_iff by blast
qed

lemma base64_encode_plain: "\<not> list_ex isLineTerminator (base64_encode bs)"
proof (induction bs rule: base64_encode.induct)
  case 1
  then show ?case by simp
next
  case (2 a)
  show ?case using base64_char_plain by (simp add: isLineTerminator_def)
next
  case (3 a b)
  show ?case using base64_char_plain by (simp add: isLineTerminator_def)
next
  case (4 a b c rest)
  then show ?case using base64_char_plain by simp
qed

lemma upload_stores:
  "getSlot slot (handleFileChange slot (Some f) True s) = Some (readAsDataURL f)"
  by (cases slot)
     (simp_all add: handleFileChange_def handleImageUpload_def setSlot_def getSlot_def truthy_def
        readAsDataURL_def)

lemma parse_supported:
  assumes "m \<in> set [''image/jpeg'', ''image/png'', ''image/webp'']"
    and "\<not> list_ex isLineTerminator payload"
  shows "parseDataUrl (''data:'' @ m @ '';base64,'' @ payload) = Inr \<lparr>base64 = payload, mimeType = m\<rparr>"
proof -
  have jpeg: "parseDataUrl (''data:'' @ ''image/jpeg'' @ '';base64,'' @ payload) =
      Inr \<lparr>base64 = payload, mimeType = ''image/jpeg''\<rparr>"
    using assms(2) by (simp add: parseDataUrl_def dataUrlHeader_def)
  have png: "parseDataUrl (''data:'' @ ''image/png'' @ '';base64,'' @ payload) =
      Inr \<lparr>base64 = payload, mimeType = ''image/png''\<rparr>"
    using assms(2) by (simp add: parseDataUrl_def dataUrlHeader_def)
  have webp: "parseDataUrl (''data:'' @ ''image/webp'' @ '';base64,'' @ payload) =
      Inr \<lparr>base64 = payload, mimeType = ''image/webp''\<rparr>"
    using assms(2) by (simp add: parseDataUrl_def dataUrlHeader_def)
  from assms(1) consider "m = ''image/jpeg''" | "m = ''image/png''" | "m = ''image/webp''"
    by auto
  then show ?thesis
    using jpeg png webp by cases blast+
qed

text \<open>
  C9, as the code has it: uploading a file that the picker accepts (a file of an image
  type) stores \<open>data:\<close>, the type of the file, \<open>;base64,\<close> and the base64 of its bytes in
  the slot; a file of type \<open>image/jpeg\<close>, \<open>image/png\<close> or \<open>image/webp\<close> is accepted by the
  picker, its stored string begins with \<open>data:image/jpeg;base64,\<close>,
  \<open>data:image/png;base64,\<close> or \<open>data:image/webp;base64,\<close>, and \<^verbatim>\<open>parseDataUrl\<close> accepts it.
\<close>

theorem C9_upload_roundtrip:
  "(pickerAccepts f \<longrightarrow>
      getSlot slot (handleFileChange slot (Some f) True s) =
        Some (''data:'' @ file_type f @ '';base64,'' @ base64_encode (file_bytes f))) \<and>
   (file_type f \<in> set [''image/jpeg'', ''image/png'', ''image/webp''] \<longrightarrow>
      pickerAccepts f \<and>
      prefix (''data:'' @ file_type f @ '';base64,'')
        (''data:'' @ file_type f @ '';base64,'' @ base64_encode (file_bytes f)) \<and>
      parseDataUrl (''data:'' @ file_type f @ '';base64,'' @ base64_encode (file_bytes f)) =
        Inr \<lparr>base64 = base64_encode (file_bytes f), mimeType = file_type f\<rparr>)"
proof -
  have stored: "getSlot slot (handleFileChange slot (Some f) True s) =
     Some (''data:'' @ file_type f @ '';base64,'' @ base64_encode (file_bytes f))"
    if "pickerAccepts f"
  proof -
    from that have "file_type f \<noteq> []" by (auto simp add: pickerAccepts_def)
    then show ?thesis
      using upload_stores [of slot f s] by (simp add: readAsDataURL_def dataUrlType_def)
  qed
  have "pickerAccepts f \<and>
      parseDataUrl (''data:'' @ file_type f @ '';base64,'' @ base64_encode (file_bytes f)) =
        Inr \<lparr>base64 = base64_encode (file_bytes f), mimeType = file_type f\<rparr>"
    if t: "file_type f \<in> set [''image/jpeg'', ''image/png'', ''image/webp'']"
  proof -
    from t have "pickerAccepts f" by (auto simp add: pickerAccepts_def)
    with parse_supported [OF t base64_encode_plain] show ?thesis by blast
  qed
  with stored show ?thesis by simp
qed

theorem C9_upload_roundtrip_witness:
  "productImage (handleFileChange ProductSlot (Some exampleFile) True initialApp) =
     Some ''data:image/png;base64,QQ=='' \<and>
   parseDataUrl ''data:image/png;base64,QQ=='' = Inr \<lparr>base64 = ''QQ=='', mimeType = ''image/png''\<rparr>"
proof -
  have "file_type exampleFile \<in> set [''image/jpeg'', ''image/png'', ''image/webp'']"
    and "base64_encode (file_bytes exampleFile) = ''QQ==''" and "file_type exampleFile = ''image/png''"
    and "pickerAccepts exampleFile"
    by (simp_all add: exampleFile_def base64_char_def pickerAccepts_def)
  then show ?thesis
    using C9_upload_roundtrip [of exampleFile ProductSlot initialApp]
    by (simp add: getSlot_def)
qed

text \<open>
  The picker accepts every image type. A GIF is stored as \<open>data:image/gif;base64,...\<close>,
  which begins with none of the three prefixes and which \<^verbatim>\<open>parseDataUrl\<close> rejects.
\<close>

theorem C9_gif_upload_counterexample:
  "pickerAccepts gifFile \<and>
   productImage (handleFileChange ProductSlot (Some gifFile) True initialApp) =
     Some ''data:image/gif;base64,R0lG'' \<and>
   \<not> prefix ''data:image/jpeg;base64,'' ''data:image/gif;base64,R0lG'' \<and>
   \<not> prefix ''data:image/png;base64,'' ''data:image/gif;base64,R0lG'' \<and>
   \<not> prefix ''data:image/webp;base64,'' ''data:image/gif;base64,R0lG'' \<and>
   parseDataUrl ''data:image/gif;base64,R0lG'' = Inl (Error ''Invalid image data URL.'')"
  by (simp add: pickerAccepts_def gifFile_def handleFileChange_def readAsDataURL_def dataUrlType_def truthy_def
      handleImageUpload_def setSlot_def base64_char_def parseDataUrl_def dataUrlHeader_def)

end
